theory Spec2Isabelle
  imports Complex_Main
begin

section \<open>Python values, exceptions and floats\<close>

datatype error = TypeError | ValueError | ZeroDivisionError | OverflowError | IndexError
  | UnmodelledField

datatype pyfloat = Fin rat | PInf | NInf | NaN

definition pow2 :: "int \<Rightarrow> rat" where
  "pow2 k = (if 0 \<le> k then 2 ^ nat k else 1 / 2 ^ nat (- k))"

function bits :: "int \<Rightarrow> int" where
  "bits n = (if n \<le> 0 then 0 else 1 + bits (n div 2))"
  by pat_completeness auto
termination
  by (relation "measure nat") auto

declare bits.simps [simp del]

definition ilog2 :: "rat \<Rightarrow> int" where
  "ilog2 a = (case quotient_of a of (n, d) \<Rightarrow>
     (let k = bits n - bits d
      in if pow2 k \<le> a then k else k - 1))"

definition round_half_even :: "rat \<Rightarrow> int" where
  "round_half_even x = (let f = \<lfloor>x\<rfloor>; d = x - of_int f
     in if d < 1 / 2 then f
        else if 1 / 2 < d then f + 1
        else if even f then f else f + 1)"

definition round_b64 :: "rat \<Rightarrow> pyfloat" where
  "round_b64 q = (if q = 0 then Fin 0 else
     (let a = \<bar>q\<bar>;
          p = max (ilog2 a) (- 1022) - 52;
          r = of_int (round_half_even (a / pow2 p)) * pow2 p
      in if 1024 \<le> ilog2 r then (if q < 0 then NInf else PInf)
         else Fin (if q < 0 then - r else r)))"

definition float_of_int :: "int \<Rightarrow> error + pyfloat" where
  "float_of_int i = (case round_b64 (of_int i) of
       Fin r \<Rightarrow> Inr (Fin r)
     | _ \<Rightarrow> Inl OverflowError)"

definition int_truediv :: "int \<Rightarrow> int \<Rightarrow> error + pyfloat" where
  "int_truediv a b = (if b = 0 then Inl ZeroDivisionError
     else (case round_b64 (of_int a / of_int b) of
         Fin r \<Rightarrow> Inr (Fin r)
       | _ \<Rightarrow> Inl OverflowError))"

fun float_neg :: "pyfloat \<Rightarrow> pyfloat" where
  "float_neg (Fin a) = Fin (- a)"
| "float_neg PInf = NInf"
| "float_neg NInf = PInf"
| "float_neg NaN = NaN"

fun float_add :: "pyfloat \<Rightarrow> pyfloat \<Rightarrow> pyfloat" where
  "float_add NaN _ = NaN"
| "float_add _ NaN = NaN"
| "float_add (Fin a) (Fin b) = round_b64 (a + b)"
| "float_add PInf NInf = NaN"
| "float_add NInf PInf = NaN"
| "float_add PInf _ = PInf"
| "float_add NInf _ = NInf"
| "float_add (Fin a) x = x"

definition float_sub :: "pyfloat \<Rightarrow> pyfloat \<Rightarrow> pyfloat" where
  "float_sub x y = float_add x (float_neg y)"

fun float_sgn :: "pyfloat \<Rightarrow> int" where
  "float_sgn (Fin a) = (if a < 0 then - 1 else if a = 0 then 0 else 1)"
| "float_sgn PInf = 1"
| "float_sgn NInf = - 1"
| "float_sgn NaN = 0"

fun float_mul :: "pyfloat \<Rightarrow> pyfloat \<Rightarrow> pyfloat" where
  "float_mul NaN _ = NaN"
| "float_mul _ NaN = NaN"
| "float_mul (Fin a) (Fin b) = round_b64 (a * b)"
| "float_mul x y = (let s = float_sgn x * float_sgn y
     in if s = 0 then NaN else if s < 0 then NInf else PInf)"

definition and_then :: "error + 'a \<Rightarrow> ('a \<Rightarrow> error + 'b) \<Rightarrow> error + 'b" where
  "and_then r f = (case r of Inl e \<Rightarrow> Inl e | Inr x \<Rightarrow> f x)"

definition int_add_float :: "int \<Rightarrow> pyfloat \<Rightarrow> error + pyfloat" where
  "int_add_float i x = and_then (float_of_int i) (\<lambda>f. Inr (float_add f x))"

definition float_sub_int :: "pyfloat \<Rightarrow> int \<Rightarrow> error + pyfloat" where
  "float_sub_int x i = and_then (float_of_int i) (\<lambda>f. Inr (float_sub x f))"

definition float_mul_int :: "pyfloat \<Rightarrow> int \<Rightarrow> error + pyfloat" where
  "float_mul_int x i = and_then (float_of_int i) (\<lambda>f. Inr (float_mul x f))"

fun py_int :: "pyfloat \<Rightarrow> error + int" where
  "py_int (Fin a) = Inr (if 0 \<le> a then \<lfloor>a\<rfloor> else \<lceil>a\<rceil>)"
| "py_int NaN = Inl ValueError"
| "py_int _ = Inl OverflowError"

function digits :: "int \<Rightarrow> string" where
  "digits n = (if n < 10 then [''0123456789'' ! nat n]
     else digits (n div 10) @ [''0123456789'' ! nat (n mod 10)])"
  by pat_completeness auto
termination
  by (relation "measure nat") auto

declare digits.simps [simp del]

definition py_str :: "int \<Rightarrow> string" where
  "py_str i = (if i < 0 then CHR ''-'' # digits (- i) else digits i)"

definition lower_char :: "char \<Rightarrow> char" where
  "lower_char c = (case map_of (zip ''ABCDEFGHIJKLMNOPQRSTUVWXYZ'' ''abcdefghijklmnopqrstuvwxyz'') c of
       Some l \<Rightarrow> l
     | None \<Rightarrow> c)"

definition lower :: "string \<Rightarrow> string" where
  "lower s = map lower_char s"

definition isspace :: "char \<Rightarrow> bool" where
  "isspace c = (c \<in> set [CHR 0x09, CHR 0x0A, CHR 0x0B, CHR 0x0C, CHR 0x0D,
                          CHR 0x1C, CHR 0x1D, CHR 0x1E, CHR 0x1F, CHR 0x20])"

definition strip :: "string \<Rightarrow> string" where
  "strip s = rev (dropWhile isspace (rev (dropWhile isspace s)))"

fun format_from :: "nat \<Rightarrow> string \<Rightarrow> string \<Rightarrow> error + string" where
  "format_from n [] a = Inr []"
| "format_from n (c # cs) a =
     (if c = CHR ''{'' then
        (case cs of
           [] \<Rightarrow> Inl ValueError
         | d # ds \<Rightarrow>
             if d = CHR ''{'' then and_then (format_from n ds a) (\<lambda>r. Inr (CHR ''{'' # r))
             else if d = CHR ''}'' then
               (if n = 0 then and_then (format_from (Suc n) ds a) (\<lambda>r. Inr (a @ r))
                else Inl IndexError)
             else Inl UnmodelledField)
      else if c = CHR ''}'' then
        (case cs of
           [] \<Rightarrow> Inl ValueError
         | d # ds \<Rightarrow>
             if d = CHR ''}'' then and_then (format_from n ds a) (\<lambda>r. Inr (CHR ''}'' # r))
             else Inl ValueError)
      else and_then (format_from n cs a) (\<lambda>r. Inr (c # r)))"

definition py_format :: "string \<Rightarrow> string \<Rightarrow> error + string" where
  "py_format template a = format_from 0 template a"

section \<open>The widget: module constants, objects and state\<close>

datatype pyval = PyNone | PyBool bool | PyInt int | PyFloat pyfloat | PyStr string
  | PyTuple "pyval list" | PyList "pyval list" | PyLabel nat

fun is_iterable :: "pyval \<Rightarrow> bool" where
  "is_iterable (PyStr _) = True"
| "is_iterable (PyTuple _) = True"
| "is_iterable (PyList _) = True"
| "is_iterable _ = False"

datatype texture = Texture string "int \<times> int"

record label =
  label_text :: string
  measure_text :: "string \<Rightarrow> int \<times> int"
  label_texture :: "texture option"

datatype instruction =
    Color pyval
  | Line "pyval list" int "string option" "int option"
  | Rectangle "texture option" "int \<times> int" "pyval \<times> pyval"

definition ACCEPTED_BAR_CAPS :: "string set" where
  "ACCEPTED_BAR_CAPS = {''round'', ''none'', ''square''}"

definition DEFAULT_THICKNESS :: int where
  "DEFAULT_THICKNESS = 10"

definition DEFAULT_CAP_STYLE :: string where
  "DEFAULT_CAP_STYLE = ''round''"

definition DEFAULT_PRECISION :: int where
  "DEFAULT_PRECISION = 10"

definition DEFAULT_PROGRESS_COLOUR :: pyval where
  "DEFAULT_PROGRESS_COLOUR = PyTuple [PyInt 1, PyInt 0, PyInt 0, PyInt 1]"

definition DEFAULT_BACKGROUND_COLOUR :: pyval where
  "DEFAULT_BACKGROUND_COLOUR =
     PyTuple [PyFloat (round_b64 (26 / 100)), PyFloat (round_b64 (26 / 100)),
              PyFloat (round_b64 (26 / 100)), PyInt 1]"

definition DEFAULT_MAX_PROGRESS :: int where
  "DEFAULT_MAX_PROGRESS = 100"

definition DEFAULT_MIN_PROGRESS :: int where
  "DEFAULT_MIN_PROGRESS = 0"

definition DEFAULT_WIDGET_SIZE :: int where
  "DEFAULT_WIDGET_SIZE = 200"

definition DEFAULT_TEXT_LABEL :: nat where
  "DEFAULT_TEXT_LABEL = 0"

definition NORMALISED_MAX :: int where
  "NORMALISED_MAX = 1"

definition NORMALISED_MIN :: int where
  "NORMALISED_MIN = 0"

record bar =
  thickness :: int
  cap_style :: string
  cap_precision :: int
  progress_colour :: pyval
  background_colour :: pyval
  max_progress :: int
  min_progress :: int
  widget_size :: int
  text_label :: nat
  bar_value :: int
  default_label_text :: string
  label_size :: "int \<times> int"
  pos :: "pyfloat \<times> pyfloat"
  canvas :: "instruction list"
  heap :: "nat \<Rightarrow> label"
  draws :: nat

datatype outcome = Done bar | Raised error bar

fun state_of :: "outcome \<Rightarrow> bar" where
  "state_of (Done s) = s"
| "state_of (Raised e s) = s"

fun raised :: "outcome \<Rightarrow> error option" where
  "raised (Done s) = None"
| "raised (Raised e s) = Some e"

definition init :: "(nat \<Rightarrow> label) \<Rightarrow> pyfloat \<times> pyfloat \<Rightarrow> bar" where
  "init h p = \<lparr>
     thickness = DEFAULT_THICKNESS,
     cap_style = DEFAULT_CAP_STYLE,
     cap_precision = DEFAULT_PRECISION,
     progress_colour = DEFAULT_PROGRESS_COLOUR,
     background_colour = DEFAULT_BACKGROUND_COLOUR,
     max_progress = DEFAULT_MAX_PROGRESS,
     min_progress = DEFAULT_MIN_PROGRESS,
     widget_size = DEFAULT_WIDGET_SIZE,
     text_label = DEFAULT_TEXT_LABEL,
     bar_value = DEFAULT_MIN_PROGRESS,
     default_label_text = label_text (h DEFAULT_TEXT_LABEL),
     label_size = (0, 0),
     pos = p,
     canvas = [],
     heap = h,
     draws = 0 \<rparr>"

definition module_heap :: "(string \<Rightarrow> int \<times> int) \<Rightarrow> nat \<Rightarrow> label" where
  "module_heap m = (\<lambda>r. \<lparr> label_text = ''{}%'', measure_text = m, label_texture = None \<rparr>)"

section \<open>The validated setters\<close>

definition set_thickness :: "bar \<Rightarrow> pyval \<Rightarrow> outcome" where
  "set_thickness s v = (case v of
       PyInt i \<Rightarrow> if i \<le> 0 then Raised ValueError s else Done (s\<lparr>thickness := i\<rparr>)
     | _ \<Rightarrow> Raised TypeError s)"

definition set_cap_style :: "bar \<Rightarrow> pyval \<Rightarrow> outcome" where
  "set_cap_style s v = (case v of
       PyStr t \<Rightarrow>
         (let c = strip (lower t)
          in if c \<notin> ACCEPTED_BAR_CAPS then Raised ValueError s else Done (s\<lparr>cap_style := c\<rparr>))
     | _ \<Rightarrow> Raised TypeError s)"

definition set_cap_precision :: "bar \<Rightarrow> pyval \<Rightarrow> outcome" where
  "set_cap_precision s v = (case v of
       PyInt i \<Rightarrow> if i \<le> 0 then Raised ValueError s else Done (s\<lparr>cap_precision := i\<rparr>)
     | _ \<Rightarrow> Raised TypeError s)"

definition set_progress_colour :: "bar \<Rightarrow> pyval \<Rightarrow> outcome" where
  "set_progress_colour s v =
     (if \<not> is_iterable v then Raised TypeError s else Done (s\<lparr>progress_colour := v\<rparr>))"

definition set_background_colour :: "bar \<Rightarrow> pyval \<Rightarrow> outcome" where
  "set_background_colour s v =
     (if \<not> is_iterable v then Raised TypeError s else Done (s\<lparr>background_colour := v\<rparr>))"

definition set_max :: "bar \<Rightarrow> pyval \<Rightarrow> outcome" where
  "set_max s v = (case v of
       PyInt i \<Rightarrow>
         if i \<le> min_progress s then Raised ValueError s else Done (s\<lparr>max_progress := i\<rparr>)
     | _ \<Rightarrow> Raised TypeError s)"

definition set_min :: "bar \<Rightarrow> pyval \<Rightarrow> outcome" where
  "set_min s v = (case v of
       PyInt i \<Rightarrow>
         if i > max_progress s then Raised ValueError s
         else Done (s\<lparr>min_progress := i, bar_value := i\<rparr>)
     | _ \<Rightarrow> Raised TypeError s)"

definition set_widget_size :: "bar \<Rightarrow> pyval \<Rightarrow> outcome" where
  "set_widget_size s v = (case v of
       PyInt i \<Rightarrow> if i \<le> 0 then Raised ValueError s else Done (s\<lparr>widget_size := i\<rparr>)
     | _ \<Rightarrow> Raised TypeError s)"

definition set_label :: "bar \<Rightarrow> pyval \<Rightarrow> outcome" where
  "set_label s v = (case v of
       PyLabel r \<Rightarrow> Done (s\<lparr>text_label := r, default_label_text := label_text (heap s r)\<rparr>)
     | _ \<Rightarrow> Raised TypeError s)"

section \<open>Normalisation, label text and drawing\<close>

definition get_normalised_progress :: "bar \<Rightarrow> error + pyfloat" where
  "get_normalised_progress s =
     and_then (int_truediv ((bar_value s - min_progress s) * (NORMALISED_MAX - NORMALISED_MIN))
                           (max_progress s - min_progress s))
       (\<lambda>q. int_add_float NORMALISED_MIN q)"

definition percentage :: "bar \<Rightarrow> error + int" where
  "percentage s =
     and_then (get_normalised_progress s) (\<lambda>np. and_then (float_mul_int np 100) py_int)"

definition refresh_text :: "bar \<Rightarrow> outcome" where
  "refresh_text s =
     (case and_then (percentage s) (\<lambda>i. py_format (default_label_text s) (py_str i)) of
        Inl e \<Rightarrow> Raised e s
      | Inr t \<Rightarrow>
          (let r = text_label s;
               l = heap s r;
               sz = measure_text l t;
               l' = l\<lparr>label_text := t, label_texture := Some (Texture t sz)\<rparr>
           in Done (s\<lparr>heap := (heap s)(r := l'), label_size := sz\<rparr>)))"

definition emit :: "instruction \<Rightarrow> bar \<Rightarrow> bar" where
  "emit i s = s\<lparr>canvas := canvas s @ [i]\<rparr>"

definition circle :: "bar \<Rightarrow> error + pyval list" where
  "circle s =
     and_then (int_truediv (widget_size s) 2) (\<lambda>hx.
     and_then (int_truediv (widget_size s) 2) (\<lambda>hy.
     and_then (int_truediv (widget_size s) 2) (\<lambda>hr.
     and_then (float_sub_int hr (thickness s)) (\<lambda>radius.
       Inr [PyFloat (float_add (fst (pos s)) hx), PyFloat (float_add (snd (pos s)) hy),
            PyFloat radius]))))"

definition progress_circle :: "bar \<Rightarrow> error + pyval list" where
  "progress_circle s =
     and_then (circle s) (\<lambda>c.
     and_then (get_normalised_progress s) (\<lambda>np.
     and_then (float_mul_int np 360) (\<lambda>angle.
       Inr (c @ [PyInt 0, PyFloat angle]))))"

definition centred :: "int \<Rightarrow> int \<Rightarrow> pyfloat \<Rightarrow> error + pyval" where
  "centred side extent origin =
     and_then (int_truediv side 2) (\<lambda>h.
     and_then (int_truediv extent 2) (\<lambda>l.
       Inr (PyFloat (float_add (float_sub h l) origin))))"

definition label_pos :: "bar \<Rightarrow> error + pyval \<times> pyval" where
  "label_pos s =
     and_then (centred (widget_size s) (fst (label_size s)) (fst (pos s))) (\<lambda>x.
     and_then (centred (widget_size s) (snd (label_size s)) (snd (pos s))) (\<lambda>y.
       Inr (x, y)))"

definition draw :: "bar \<Rightarrow> outcome" where
  "draw s0 =
     (case refresh_text (s0\<lparr>canvas := [], draws := Suc (draws s0)\<rparr>) of
        Raised e s \<Rightarrow> Raised e s
      | Done s1 \<Rightarrow>
          (let s2 = emit (Color (background_colour s1)) s1
           in case circle s2 of
                Inl e \<Rightarrow> Raised e s2
              | Inr c \<Rightarrow>
                  (let s3 = emit (Line c (thickness s2) None None) s2;
                       s4 = emit (Color (progress_colour s3)) s3
                   in case progress_circle s4 of
                        Inl e \<Rightarrow> Raised e s4
                      | Inr pc \<Rightarrow>
                          (let s5 = emit (Line pc (thickness s4) (Some (cap_style s4))
                                            (Some (cap_precision s4))) s4;
                               s6 = emit (Color (PyTuple [PyInt 1, PyInt 1, PyInt 1, PyInt 1])) s5
                           in case label_pos s6 of
                                Inl e \<Rightarrow> Raised e s6
                              | Inr lp \<Rightarrow>
                                  Done (emit (Rectangle (label_texture (heap s6 (text_label s6)))
                                                (label_size s6) lp) s6)))))"

definition set_value :: "bar \<Rightarrow> pyval \<Rightarrow> outcome" where
  "set_value s v = (case v of
       PyInt i \<Rightarrow>
         if min_progress s > i \<and> i > max_progress s then Raised ValueError s
         else if i \<noteq> bar_value s then draw (s\<lparr>bar_value := i\<rparr>)
         else Done s
     | _ \<Rightarrow> Raised TypeError s)"

section \<open>Sequences of assignments\<close>

datatype setter = Thickness pyval | Cap_style pyval | Cap_precision pyval
  | Progress_colour pyval | Background_colour pyval | Max pyval | Min pyval
  | Value pyval | Widget_size pyval | Label pyval

fun assign :: "bar \<Rightarrow> setter \<Rightarrow> outcome" where
  "assign s (Thickness v) = set_thickness s v"
| "assign s (Cap_style v) = set_cap_style s v"
| "assign s (Cap_precision v) = set_cap_precision s v"
| "assign s (Progress_colour v) = set_progress_colour s v"
| "assign s (Background_colour v) = set_background_colour s v"
| "assign s (Max v) = set_max s v"
| "assign s (Min v) = set_min s v"
| "assign s (Value v) = set_value s v"
| "assign s (Widget_size v) = set_widget_size s v"
| "assign s (Label v) = set_label s v"

fun assign_all :: "bar \<Rightarrow> setter list \<Rightarrow> bar" where
  "assign_all s [] = s"
| "assign_all s (a # as) = assign_all (state_of (assign s a)) as"

fun assign_each :: "bar \<Rightarrow> setter list \<Rightarrow> bar option" where
  "assign_each s [] = Some s"
| "assign_each s (a # as) = (case assign s a of
       Done s' \<Rightarrow> assign_each s' as
     | Raised e s' \<Rightarrow> None)"

fun relabels :: "setter \<Rightarrow> bool" where
  "relabels (Label v) = True"
| "relabels _ = False"

fun assigns_value :: "setter \<Rightarrow> bool" where
  "assigns_value (Value v) = True"
| "assigns_value _ = False"

section \<open>Facts about binary64 rounding\<close>

lemma bits_nonneg: "0 \<le> bits n"
  by (induction n rule: bits.induct) (simp add: bits.simps)

lemma bits_mono: "m \<le> n \<Longrightarrow> bits m \<le> bits n"
proof (induction n arbitrary: m rule: bits.induct)
  case (1 n)
  show ?case
  proof (cases "n \<le> 0")
    case True
    with "1.prems" show ?thesis by (simp add: bits.simps)
  next
    case False
    show ?thesis
    proof (cases "m \<le> 0")
      case True
      with bits_nonneg [of n] show ?thesis by (simp add: bits.simps [of m])
    next
      case m: False
      from "1.prems" have "m div 2 \<le> n div 2" by (simp add: zdiv_mono1)
      with False "1.IH" have "bits (m div 2) \<le> bits (n div 2)" by simp
      with False m show ?thesis by (simp add: bits.simps [of m] bits.simps [of n])
    qed
  qed
qed

lemma ilog2_le_0:
  assumes "0 < a" "a \<le> 1"
  shows "ilog2 a \<le> 0"
proof -
  obtain n d where q: "quotient_of a = (n, d)" by (cases "quotient_of a")
  then have d: "0 < d" and a: "a = of_int n / of_int d"
    by (simp_all add: quotient_of_denom_pos quotient_of_div)
  from assms(2) a d have "n \<le> d" by (simp add: pos_divide_le_eq)
  then have "bits n - bits d \<le> 0" using bits_mono by fastforce
  then show ?thesis by (simp add: ilog2_def q Let_def)
qed

lemma round_half_even_nonneg: "0 \<le> x \<Longrightarrow> 0 \<le> round_half_even x"
  by (simp add: round_half_even_def Let_def)

lemma round_half_even_le:
  assumes "x \<le> of_int n" shows "round_half_even x \<le> n"
proof -
  have f: "\<lfloor>x\<rfloor> \<le> n" using assms by (simp add: floor_le_iff)
  show ?thesis
  proof (cases "\<lfloor>x\<rfloor> = n")
    case True
    then have "x = of_int n" using assms by (metis of_int_floor_le order_antisym)
    then show ?thesis by (simp add: round_half_even_def Let_def)
  next
    case False
    with f have "\<lfloor>x\<rfloor> + 1 \<le> n" by simp
    then show ?thesis by (simp add: round_half_even_def Let_def)
  qed
qed

lemma round_b64_zero: "round_b64 0 = Fin 0"
  by (simp add: round_b64_def)

lemma round_b64_one: "round_b64 1 = Fin 1"
  by code_simp

lemma ilog2_zero: "ilog2 0 < 1024"
  by code_simp

lemma round_b64_unit:
  assumes "0 \<le> q" "q \<le> 1"
  shows "\<exists>r. round_b64 q = Fin r \<and> 0 \<le> r \<and> r \<le> 1"
proof (cases "q = 0")
  case True
  then show ?thesis by (simp add: round_b64_zero)
next
  case False
  with assms have pos: "0 < q" by simp
  define p where "p = max (ilog2 q) (- 1022) - 52"
  define k where "k = nat (- p)"
  define r where "r = of_int (round_half_even (q / pow2 p)) * pow2 p"
  have "ilog2 q \<le> 0" using pos assms(2) by (rule ilog2_le_0)
  then have "p < 0" by (simp add: p_def)
  then have pw: "pow2 p = 1 / 2 ^ k" by (simp add: pow2_def k_def)
  have "q / pow2 p = q * 2 ^ k" by (simp add: pw)
  also have "\<dots> \<le> of_int (2 ^ k)" using assms(2) by simp
  finally have up: "round_half_even (q / pow2 p) \<le> 2 ^ k" by (rule round_half_even_le)
  have "0 \<le> q / pow2 p" using pos by (simp add: pw)
  then have lo: "0 \<le> round_half_even (q / pow2 p)" by (rule round_half_even_nonneg)
  have r0: "0 \<le> r" using lo by (simp add: r_def pw)
  have "(of_int (round_half_even (q / pow2 p)) :: rat) \<le> of_int (2 ^ k)"
    using up by (simp only: of_int_le_iff)
  then have r1: "r \<le> 1" by (simp add: r_def pw pos_divide_le_eq)
  have small: "\<not> 1024 \<le> ilog2 r"
  proof (cases "r = 0")
    case True
    then show ?thesis using ilog2_zero by simp
  next
    case False
    with r0 have "0 < r" by simp
    then have "ilog2 r \<le> 0" using r1 by (rule ilog2_le_0)
    then show ?thesis by simp
  qed
  have "round_b64 q = Fin r"
    using pos small by (simp add: round_b64_def Let_def r_def p_def)
  with r0 r1 show ?thesis by blast
qed

section \<open>What redrawing leaves alone\<close>

lemma refresh_text_raised: "refresh_text s = Raised e s' \<Longrightarrow> s' = s"
  by (simp add: refresh_text_def Let_def split: sum.splits)

lemma refresh_text_fields:
  "thickness (state_of (refresh_text s)) = thickness s"
  "cap_style (state_of (refresh_text s)) = cap_style s"
  "cap_precision (state_of (refresh_text s)) = cap_precision s"
  "progress_colour (state_of (refresh_text s)) = progress_colour s"
  "background_colour (state_of (refresh_text s)) = background_colour s"
  "max_progress (state_of (refresh_text s)) = max_progress s"
  "min_progress (state_of (refresh_text s)) = min_progress s"
  "widget_size (state_of (refresh_text s)) = widget_size s"
  "text_label (state_of (refresh_text s)) = text_label s"
  "bar_value (state_of (refresh_text s)) = bar_value s"
  "default_label_text (state_of (refresh_text s)) = default_label_text s"
  "pos (state_of (refresh_text s)) = pos s"
  "canvas (state_of (refresh_text s)) = canvas s"
  "draws (state_of (refresh_text s)) = draws s"
  by (simp_all add: refresh_text_def Let_def split: sum.splits)

lemma draw_cases:
  obtains (failed) e where "draw s = Raised e (s\<lparr>canvas := [], draws := Suc (draws s)\<rparr>)"
  | (drawn) s1 c where "refresh_text (s\<lparr>canvas := [], draws := Suc (draws s)\<rparr>) = Done s1"
      and "state_of (draw s) = s1\<lparr>canvas := c\<rparr>"
proof (cases "refresh_text (s\<lparr>canvas := [], draws := Suc (draws s)\<rparr>)")
  case (Raised e t)
  then have "t = s\<lparr>canvas := [], draws := Suc (draws s)\<rparr>" by (rule refresh_text_raised)
  with Raised have "draw s = Raised e (s\<lparr>canvas := [], draws := Suc (draws s)\<rparr>)"
    by (simp add: draw_def)
  then show thesis by (rule failed)
next
  case (Done s1)
  then have "\<exists>c. state_of (draw s) = s1\<lparr>canvas := c\<rparr>"
    by (auto simp add: draw_def emit_def Let_def split: sum.splits)
  with Done show thesis using drawn by blast
qed

lemma draw_fields:
  "thickness (state_of (draw s)) = thickness s \<and>
   cap_style (state_of (draw s)) = cap_style s \<and>
   cap_precision (state_of (draw s)) = cap_precision s \<and>
   progress_colour (state_of (draw s)) = progress_colour s \<and>
   background_colour (state_of (draw s)) = background_colour s \<and>
   max_progress (state_of (draw s)) = max_progress s \<and>
   min_progress (state_of (draw s)) = min_progress s \<and>
   widget_size (state_of (draw s)) = widget_size s \<and>
   text_label (state_of (draw s)) = text_label s \<and>
   bar_value (state_of (draw s)) = bar_value s \<and>
   default_label_text (state_of (draw s)) = default_label_text s \<and>
   pos (state_of (draw s)) = pos s \<and>
   draws (state_of (draw s)) = Suc (draws s)"
proof (cases s rule: draw_cases)
  case (failed e)
  then show ?thesis by simp
next
  case (drawn s1 c)
  with refresh_text_fields [of "s\<lparr>canvas := [], draws := Suc (draws s)\<rparr>"]
  show ?thesis by simp
qed

section \<open>The normalised progress\<close>

lemma int_truediv_unit:
  assumes "0 \<le> a" "a \<le> b" "0 < b"
  shows "\<exists>r. int_truediv a b = Inr (Fin r) \<and> 0 \<le> r \<and> r \<le> 1 \<and>
             (a = 0 \<longrightarrow> r = 0) \<and> (a = b \<longrightarrow> r = 1)"
proof -
  let ?q = "of_int a / of_int b :: rat"
  have "0 \<le> ?q" "?q \<le> 1" using assms by (simp_all add: pos_divide_le_eq)
  then obtain r where r: "round_b64 ?q = Fin r" "0 \<le> r" "r \<le> 1"
    using round_b64_unit by blast
  have "a = 0 \<Longrightarrow> r = 0" using r(1) by (simp add: round_b64_zero)
  moreover have "a = b \<Longrightarrow> r = 1" using r(1) assms(3) by (simp add: round_b64_one)
  ultimately show ?thesis using r assms(3) by (auto simp add: int_truediv_def)
qed

lemma int_add_float_unit:
  assumes "0 \<le> r" "r \<le> 1"
  shows "\<exists>r'. int_add_float 0 (Fin r) = Inr (Fin r') \<and> 0 \<le> r' \<and> r' \<le> 1 \<and>
              (r = 0 \<longrightarrow> r' = 0) \<and> (r = 1 \<longrightarrow> r' = 1)"
proof -
  obtain r' where r': "round_b64 r = Fin r'" "0 \<le> r'" "r' \<le> 1"
    using round_b64_unit [OF assms] by blast
  have "int_add_float 0 (Fin r) = Inr (Fin r')"
    using r'(1) by (simp add: int_add_float_def float_of_int_def and_then_def round_b64_zero)
  moreover have "r = 0 \<Longrightarrow> r' = 0" using r'(1) by (simp add: round_b64_zero)
  moreover have "r = 1 \<Longrightarrow> r' = 1" using r'(1) by (simp add: round_b64_one)
  ultimately show ?thesis using r' by blast
qed

text \<open>
  Claim C3. In a state with \<open>min < max\<close> and \<open>min \<le> value \<le> max\<close>,
  \<open>get_normalised_progress\<close> returns a float (it raises nothing), the float lies in
  \<open>[0, 1]\<close>, it is \<open>0\<close> when the value is the minimum and \<open>1\<close> when the value is the
  maximum. The float is the binary64 rounding of the exact quotient, so the bounds are
  those of the rounded result, not only of the quotient.
\<close>

theorem get_normalised_progress_unit:
  assumes "min_progress s < max_progress s"
    and "min_progress s \<le> bar_value s" and "bar_value s \<le> max_progress s"
  shows "\<exists>r. get_normalised_progress s = Inr (Fin r) \<and> 0 \<le> r \<and> r \<le> 1 \<and>
             (bar_value s = min_progress s \<longrightarrow> r = 0) \<and>
             (bar_value s = max_progress s \<longrightarrow> r = 1)"
proof -
  let ?a = "(bar_value s - min_progress s) * (NORMALISED_MAX - NORMALISED_MIN)"
  let ?b = "max_progress s - min_progress s"
  have a: "?a = bar_value s - min_progress s"
    by (simp add: NORMALISED_MAX_def NORMALISED_MIN_def)
  have "0 \<le> ?a" "?a \<le> ?b" "0 < ?b" using assms by (simp_all add: a)
  then obtain q where q: "int_truediv ?a ?b = Inr (Fin q)" "0 \<le> q" "q \<le> 1"
    "?a = 0 \<longrightarrow> q = 0" "?a = ?b \<longrightarrow> q = 1"
    using int_truediv_unit [of ?a ?b] by blast
  obtain r where r: "int_add_float 0 (Fin q) = Inr (Fin r)" "0 \<le> r" "r \<le> 1"
    "q = 0 \<longrightarrow> r = 0" "q = 1 \<longrightarrow> r = 1"
    using int_add_float_unit [OF q(2,3)] by blast
  have "get_normalised_progress s = Inr (Fin r)"
    using q(1) r(1) by (simp add: get_normalised_progress_def and_then_def NORMALISED_MIN_def)
  moreover have "bar_value s = min_progress s \<longrightarrow> r = 0" using q(4) r(4) by (simp add: a)
  moreover have "bar_value s = max_progress s \<longrightarrow> r = 1" using q(5) r(5) by (simp add: a)
  ultimately show ?thesis using r(2,3) by blast
qed

theorem get_normalised_progress_unit_witness:
  "\<exists>r. get_normalised_progress (init (module_heap (\<lambda>t. (0, 0))) (Fin 0, Fin 0)\<lparr>bar_value := 50\<rparr>) = Inr (Fin r)
       \<and> 0 \<le> r \<and> r \<le> 1"
  using get_normalised_progress_unit [of "init (module_heap (\<lambda>t. (0, 0))) (Fin 0, Fin 0)\<lparr>bar_value := 50\<rparr>"]
  by (simp add: init_def DEFAULT_MAX_PROGRESS_def DEFAULT_MIN_PROGRESS_def)

end
